theory Spec2Isabelle
  imports Main
begin

section \<open>JavaScript values\<close>

text \<open>
  The component in \<^verbatim>\<open>packages/sdk/src/ui/text.js\<close> receives and produces plain
  JavaScript values. The values modelled are \<^verbatim>\<open>undefined\<close>, \<^verbatim>\<open>null\<close>, booleans,
  integral numbers, strings and plain objects. An object is the list of its property
  definitions in evaluation order; as in an object initialiser, a later definition of a
  key overrides an earlier one. Only own properties are modelled: members inherited
  from a prototype are outside the model.
\<close>

datatype jsval =
    Undefined
  | Null
  | Bool bool
  | Num int
  | Str string
  | Obj "(string \<times> jsval) list"

type_synonym props = "(string \<times> jsval) list"

datatype error =
    InvariantViolation string
  | TypeError

text \<open>Reading an own property: the last definition of the key is the one in force.\<close>

definition lookupOwn :: "props \<Rightarrow> string \<Rightarrow> jsval option" where
  "lookupOwn kvs k = map_of (rev kvs) k"

text \<open>\<^verbatim>\<open>obj.k\<close> on an object: a key without definition reads as \<^verbatim>\<open>undefined\<close>.\<close>

definition readProp :: "props \<Rightarrow> string \<Rightarrow> jsval" where
  "readProp kvs k = (case lookupOwn kvs k of None \<Rightarrow> Undefined | Some v \<Rightarrow> v)"

text \<open>
  Decimal rendering of numbers, as used for array-index keys and \<^verbatim>\<open>String(n)\<close>. It is
  the rendering of the code for the integers a number holds exactly and prints without
  an exponent.
\<close>

fun string_of_nat :: "nat \<Rightarrow> string" where
  "string_of_nat n =
     (if n < 10 then [''0123456789'' ! n]
      else string_of_nat (n div 10) @ [''0123456789'' ! (n mod 10)])"

declare string_of_nat.simps [simp del]

definition string_of_int :: "int \<Rightarrow> string" where
  "string_of_int i = (if i < 0 then ''-'' @ string_of_nat (nat (- i)) else string_of_nat (nat i))"

text \<open>The property key a value denotes when used in \<^verbatim>\<open>obj[value]\<close>.\<close>

fun toPropertyKey :: "jsval \<Rightarrow> string" where
  "toPropertyKey Undefined = ''undefined''"
| "toPropertyKey Null = ''null''"
| "toPropertyKey (Bool b) = (if b then ''true'' else ''false'')"
| "toPropertyKey (Num i) = string_of_int i"
| "toPropertyKey (Str s) = s"
| "toPropertyKey (Obj kvs) = ''[object Object]''"

text \<open>
  The own enumerable properties of a value, which is what an object spread
  \<^verbatim>\<open>{...v}\<close> copies: the properties of an object, the indexed characters of a string,
  nothing for the other values (spreading \<^verbatim>\<open>undefined\<close> or \<^verbatim>\<open>null\<close> is allowed and
  copies nothing).
\<close>

fun ownProps :: "jsval \<Rightarrow> props" where
  "ownProps (Obj kvs) = kvs"
| "ownProps (Str s) = zip (map string_of_nat [0..<length s]) (map (\<lambda>c. Str [c]) s)"
| "ownProps v = []"

text \<open>
  \<^verbatim>\<open>v[k]\<close> for an arbitrary value: reading a property of \<^verbatim>\<open>undefined\<close> or \<^verbatim>\<open>null\<close>
  throws a \<^verbatim>\<open>TypeError\<close>; a string has its length and its indexed characters.
\<close>

fun getProp :: "jsval \<Rightarrow> string \<Rightarrow> error + jsval" where
  "getProp Undefined k = Inl TypeError"
| "getProp Null k = Inl TypeError"
| "getProp (Obj kvs) k = Inr (readProp kvs k)"
| "getProp (Str s) k =
     (if k = ''length'' then Inr (Num (int (length s)))
      else Inr (readProp (ownProps (Str s)) k))"
| "getProp v k = Inr Undefined"

text \<open>
  The names a plain object inherits from \<^verbatim>\<open>Object.prototype\<close>. Where an object has no
  own property of one of these names, a read \<^verbatim>\<open>obj[key]\<close> of the code yields the
  inherited member, which \<open>getProp\<close> does not model. The statements about the lookup of
  a key the caller chooses are therefore made for keys outside this list, where a
  read of a plain object is decided by its own properties.
\<close>

definition objectPrototypeNames :: "string list" where
  "objectPrototypeNames =
     [''constructor'', ''__defineGetter__'', ''__defineSetter__'', ''hasOwnProperty'',
      ''__lookupGetter__'', ''__lookupSetter__'', ''isPrototypeOf'',
      ''propertyIsEnumerable'', ''toString'', ''valueOf'', ''__proto__'',
      ''toLocaleString'']"

section \<open>The collaborators of the component\<close>

text \<open>
  \<^verbatim>\<open>text.js\<close> imports the theme hook, the responsive expansion routine, the styling
  hook and the class-name combiner from other modules. They are parameters of the
  model: \<open>useTheme\<close> is the theme object the hook returns, the other three are the
  functions called. They are taken as returning a value: a collaborator that throws is
  outside the model, and no statement below says that a render returns where that
  depends on a collaborator.
\<close>

record env =
  useTheme :: jsval
  getStylePropsForResponsiveProp :: "jsval \<Rightarrow> jsval \<Rightarrow> jsval"
  useStyledSystem :: "jsval \<Rightarrow> jsval"
  cx :: "jsval \<Rightarrow> jsval \<Rightarrow> jsval"

text \<open>
  Modelled from the spec: \<^verbatim>\<open>invariant\<close> of \<^verbatim>\<open>../error_utils\<close> is missing from the
  sources. Section 6 calls it a prop-existence assertion utility and section 4.2 says
  the required props are validated at render with a hard failure: the call returns
  when the condition holds and fails with the given message otherwise.
\<close>

definition invariant :: "bool \<Rightarrow> string \<Rightarrow> error + unit" where
  "invariant condition msg = (if condition then Inr () else Inl (InvariantViolation msg))"

section \<open>The enumerations\<close>

definition TextVariants :: props where
  "TextVariants = [(''DEFAULT'', Str ''default''), (''PARAGRAPH'', Str ''paragraph'')]"

definition TextSizes :: props where
  "TextSizes =
     [(''XSMALL'', Str ''xsmall''), (''SMALL'', Str ''small''),
      (''DEFAULT'', Str ''default''), (''LARGE'', Str ''large'')]"

text \<open>
  Modelled from the spec: \<^verbatim>\<open>values\<close> of \<^verbatim>\<open>../private_utils\<close> is missing from the
  sources. It lists the members of an enumeration (section 3), which are the values of
  the properties of the frozen object.
\<close>

definition values_of :: "props \<Rightarrow> jsval list" where
  "values_of obj = map snd obj"

section \<open>The style resolver\<close>

definition useTextSize :: "env \<Rightarrow> jsval \<Rightarrow> jsval \<Rightarrow> error + jsval" where
  "useTextSize e textSizeProp variant =
     (case getProp (useTheme e) ''textSizesByVariant'' of
        Inl err \<Rightarrow> Inl err
      | Inr textSizesByVariant \<Rightarrow>
          (case getProp textSizesByVariant (toPropertyKey variant) of
             Inl err \<Rightarrow> Inl err
           | Inr textSizesForVariant \<Rightarrow>
               (case textSizeProp of
                  Str s \<Rightarrow> getProp textSizesForVariant s
                | _ \<Rightarrow> Inr (getStylePropsForResponsiveProp e textSizeProp textSizesForVariant))))"

section \<open>The render function\<close>

text \<open>
  The JSX expression a render returns: the host element type, the attribute object
  (the attributes in the order written, a spread contributing its properties in place)
  and the children.
\<close>

record element =
  elementType :: jsval
  attributes :: props
  children :: jsval

text \<open>The keys the render function destructures by name; the rest are style props.\<close>

definition namedProps :: "string list" where
  "namedProps =
     [''as'', ''size'', ''variant'', ''children'', ''id'', ''role'', ''dataAttributes'',
      ''className'', ''style'', ''aria-label'', ''aria-labelledby'', ''aria-describedby'',
      ''aria-controls'', ''aria-expanded'', ''aria-haspopup'', ''aria-hidden'', ''aria-live'']"

definition restProps :: "string list \<Rightarrow> props \<Rightarrow> props" where
  "restProps names ps = filter (\<lambda>(k, v). k \<notin> set names) ps"

definition Text :: "env \<Rightarrow> props \<Rightarrow> jsval \<Rightarrow> error + element" where
  "Text e ps ref =
     (let Component = readProp ps ''as'';
          size = readProp ps ''size'';
          variant = readProp ps ''variant'';
          dataAttributes =
            (if readProp ps ''dataAttributes'' = Undefined then Obj []
             else readProp ps ''dataAttributes'');
          className = readProp ps ''className'';
          styleProps = restProps namedProps ps
      in case invariant (Component \<noteq> Undefined) ''as'' of
           Inl err \<Rightarrow> Inl err
         | Inr _ \<Rightarrow>
      (case invariant (size \<noteq> Undefined) ''size'' of
           Inl err \<Rightarrow> Inl err
         | Inr _ \<Rightarrow>
      (case invariant (variant \<noteq> Undefined) ''variant'' of
           Inl err \<Rightarrow> Inl err
         | Inr _ \<Rightarrow>
      (case useTextSize e size variant of
           Inl err \<Rightarrow> Inl err
         | Inr stylePropsForTextSize \<Rightarrow>
             (let classNameForStyleProps =
                    useStyledSystem e (Obj (ownProps stylePropsForTextSize @ styleProps))
              in Inr \<lparr>elementType = Component,
                      attributes =
                        [(''ref'', ref),
                         (''id'', readProp ps ''id''),
                         (''className'', cx e classNameForStyleProps className),
                         (''style'', readProp ps ''style''),
                         (''role'', readProp ps ''role''),
                         (''aria-label'', readProp ps ''aria-label''),
                         (''aria-labelledby'', readProp ps ''aria-labelledby''),
                         (''aria-describedby'', readProp ps ''aria-describedby''),
                         (''aria-controls'', readProp ps ''aria-controls''),
                         (''aria-expanded'', readProp ps ''aria-expanded''),
                         (''aria-haspopup'', readProp ps ''aria-haspopup''),
                         (''aria-hidden'', readProp ps ''aria-hidden''),
                         (''aria-live'', readProp ps ''aria-live'')]
                        @ ownProps dataAttributes,
                      children = readProp ps ''children''\<rparr>)))))"

text \<open>The value of an attribute of the rendered element.\<close>

definition attribute :: "element \<Rightarrow> string \<Rightarrow> jsval" where
  "attribute el k = readProp (attributes el) k"

text \<open>The attributes the JSX expression writes before the spread of \<^verbatim>\<open>dataAttributes\<close>.\<close>

definition builtInAttributes :: "env \<Rightarrow> props \<Rightarrow> jsval \<Rightarrow> jsval \<Rightarrow> props" where
  "builtInAttributes e ps ref stylePropsForTextSize =
     [(''ref'', ref),
      (''id'', readProp ps ''id''),
      (''className'',
         cx e (useStyledSystem e
                 (Obj (ownProps stylePropsForTextSize @ restProps namedProps ps)))
           (readProp ps ''className'')),
      (''style'', readProp ps ''style''),
      (''role'', readProp ps ''role''),
      (''aria-label'', readProp ps ''aria-label''),
      (''aria-labelledby'', readProp ps ''aria-labelledby''),
      (''aria-describedby'', readProp ps ''aria-describedby''),
      (''aria-controls'', readProp ps ''aria-controls''),
      (''aria-expanded'', readProp ps ''aria-expanded''),
      (''aria-haspopup'', readProp ps ''aria-haspopup''),
      (''aria-hidden'', readProp ps ''aria-hidden''),
      (''aria-live'', readProp ps ''aria-live'')]"

section \<open>Default props\<close>




section \<open>Collaborators as the specification describes them\<close>

text \<open>
  Modelled from the spec: \<^verbatim>\<open>getStylePropsForResponsiveProp\<close> of
  \<^verbatim>\<open>./system/utils/get_style_props_for_responsive_prop\<close> is missing from the sources.
  Section 4.1 describes it as the routine that expands each breakpoint's Size value to
  the theme table's style object, producing a merged responsive style-property object.
  In the result every style property of an expanded entry carries an object of its
  values per breakpoint.
\<close>

definition setAtBreakpoint :: "string \<Rightarrow> props \<Rightarrow> string \<times> jsval \<Rightarrow> props" where
  "setAtBreakpoint bp acc pv =
     acc @ [(fst pv, Obj (ownProps (readProp acc (fst pv)) @ [(bp, snd pv)]))]"

text \<open>
  Modelled from the spec: the expansion of one breakpoint of the mapping (the routine is
  missing from the sources). The breakpoint's Size value selects the style object of
  the theme row, and each of its style properties is recorded at the breakpoint.
\<close>

definition expandBreakpoint :: "jsval \<Rightarrow> props \<Rightarrow> string \<times> jsval \<Rightarrow> props" where
  "expandBreakpoint scale acc bs =
     foldl (setAtBreakpoint (fst bs)) acc
       (ownProps (readProp (ownProps scale) (toPropertyKey (snd bs))))"

text \<open>
  Modelled from the spec: the routine itself (missing from the sources), which expands
  every breakpoint of the mapping in turn and returns the merged object.
\<close>

definition responsiveStyleProps :: "jsval \<Rightarrow> jsval \<Rightarrow> jsval" where
  "responsiveStyleProps mapping scale =
     Obj (foldl (expandBreakpoint scale) [] (ownProps mapping))"

text \<open>
  Modelled from the spec: the style of a breakpoint key in a responsive style-property
  object (section 8), read as the value the object gives a style property at the
  breakpoint.
\<close>

definition styleAtBreakpoint :: "jsval \<Rightarrow> string \<Rightarrow> string \<Rightarrow> jsval option" where
  "styleAtBreakpoint styles bp p = lookupOwn (ownProps (readProp (ownProps styles) p)) bp"

text \<open>
  Modelled from the spec: \<^verbatim>\<open>cx\<close> is imported from the styling library and is missing
  from the sources. Section 4.2 says the final class name is the resolved style class
  name combined with the caller-supplied class name string, both applied, concatenated;
  the component's documentation says class names are separated by spaces. The class
  names of the string arguments are joined by single spaces; an argument that is not a
  string, or is the empty string, contributes nothing.
\<close>

fun classNames :: "jsval \<Rightarrow> string list" where
  "classNames (Str s) = (if s = [] then [] else [s])"
| "classNames v = []"

text \<open>Modelled from the spec: class names are separated by spaces (\<^verbatim>\<open>cx\<close> is missing from the sources).\<close>

fun joinWithSpaces :: "string list \<Rightarrow> string" where
  "joinWithSpaces [] = []"
| "joinWithSpaces [x] = x"
| "joinWithSpaces (x # y # ys) = x @ '' '' @ joinWithSpaces (y # ys)"

text \<open>
  Modelled from the spec: the combiner \<^verbatim>\<open>cx\<close> (missing from the sources) applied to the
  resolved class name and the caller's class name, first argument first.
\<close>

definition cxModel :: "jsval \<Rightarrow> jsval \<Rightarrow> jsval" where
  "cxModel a b = Str (joinWithSpaces (classNames a @ classNames b))"

section \<open>A concrete theme and environment\<close>

text \<open>
  The theme of section 8's example, which maps \<^verbatim>\<open>default\<close>/\<^verbatim>\<open>default\<close> to
  \<^verbatim>\<open>{fontSize: 14}\<close>, with an entry for every variant and size; and an environment
  around it whose styling hook names the class after the font size it is given. They
  are the inputs at which the definitions are evaluated below.
\<close>

definition exampleTable :: props where
  "exampleTable =
     [(''default'',
         Obj [(''xsmall'', Obj [(''fontSize'', Num 11)]),
              (''small'', Obj [(''fontSize'', Num 12)]),
              (''default'', Obj [(''fontSize'', Num 14)]),
              (''large'', Obj [(''fontSize'', Num 16)])]),
      (''paragraph'',
         Obj [(''xsmall'', Obj [(''fontSize'', Num 11), (''lineHeight'', Num 2)]),
              (''small'', Obj [(''fontSize'', Num 12), (''lineHeight'', Num 2)]),
              (''default'', Obj [(''fontSize'', Num 14), (''lineHeight'', Num 2)]),
              (''large'', Obj [(''fontSize'', Num 16), (''lineHeight'', Num 2)])])]"

definition exampleEnv :: env where
  "exampleEnv =
     \<lparr>useTheme = Obj [(''textSizesByVariant'', Obj exampleTable)],
      getStylePropsForResponsiveProp = responsiveStyleProps,
      useStyledSystem =
        (\<lambda>styles. Str (''css-'' @ toPropertyKey (readProp (ownProps styles) ''fontSize''))),
      cx = cxModel\<rparr>"

definition exampleProps :: props where
  "exampleProps =
     [(''as'', Str ''p''), (''size'', Str ''default''), (''variant'', Str ''default''),
      (''fontSize'', Num 20), (''className'', Str ''mine''), (''role'', Str ''heading''),
      (''aria-label'', Str ''greeting''), (''children'', Str ''Hello''),
      (''dataAttributes'', Obj [(''role'', Str ''note''), (''data-testid'', Str ''hello'')])]"

definition exampleSizes :: props where
  "exampleSizes = [(''xsmallViewport'', Str ''xsmall''), (''largeViewport'', Str ''large'')]"

section \<open>Reading properties\<close>

lemma lookupOwn_append:
  "lookupOwn (xs @ ys) k = (case lookupOwn ys k of None \<Rightarrow> lookupOwn xs k | Some v \<Rightarrow> Some v)"
  by (simp add: lookupOwn_def map_add_def split: option.split)

lemma lookupOwn_Nil: "lookupOwn [] k = None"
  by (simp add: lookupOwn_def)

lemma lookupOwn_single: "lookupOwn [(a, v)] k = (if k = a then Some v else None)"
  by (simp add: lookupOwn_def)

lemma lookupOwn_Cons:
  "lookupOwn ((a, v) # xs) k =
     (case lookupOwn xs k of None \<Rightarrow> (if k = a then Some v else None) | Some w \<Rightarrow> Some w)"
  using lookupOwn_append [of "[(a, v)]" xs k]
  by (simp add: lookupOwn_single split: option.split)

lemma readProp_append:
  "readProp (xs @ ys) k = (case lookupOwn ys k of None \<Rightarrow> readProp xs k | Some v \<Rightarrow> v)"
  by (simp add: readProp_def lookupOwn_append split: option.split)

lemma lookupOwn_restProps:
  "k \<notin> set names \<Longrightarrow> lookupOwn (restProps names ps) k = lookupOwn ps k"
proof (induction ps rule: rev_induct)
  case Nil
  then show ?case by (simp add: restProps_def)
next
  case (snoc x xs)
  obtain a v where x: "x = (a, v)" by (cases x)
  from snoc show ?case
    by (auto simp: restProps_def x lookupOwn_append lookupOwn_single lookupOwn_Nil)
qed

lemma exampleEnv_table:
  "getProp (useTheme exampleEnv) ''textSizesByVariant'' = Inr (Obj exampleTable)"
  by (simp add: exampleEnv_def readProp_def lookupOwn_def)

lemma readProp_snoc:
  "readProp (xs @ [(a, v)]) k = (if k = a then v else readProp xs k)"
  by (simp add: readProp_append lookupOwn_single)

lemma lookupOwn_snoc:
  "lookupOwn (xs @ [(a, v)]) k = (if k = a then Some v else lookupOwn xs k)"
  by (simp add: lookupOwn_append lookupOwn_single)

lemma lookupOwn_None_iff: "lookupOwn m k = None \<longleftrightarrow> k \<notin> fst ` set m"
  by (simp add: lookupOwn_def map_of_eq_None_iff)



section \<open>What a successful render returns\<close>

lemma ownProps_dataAttributes_default:
  "ownProps (if v = Undefined then Obj [] else v) = ownProps v"
  by simp

lemma Text_success:
  assumes "Text e ps ref = Inr el"
  shows "\<exists>derived.
           readProp ps ''as'' \<noteq> Undefined \<and> readProp ps ''size'' \<noteq> Undefined \<and>
           readProp ps ''variant'' \<noteq> Undefined \<and>
           useTextSize e (readProp ps ''size'') (readProp ps ''variant'') = Inr derived \<and>
           elementType el = readProp ps ''as'' \<and>
           children el = readProp ps ''children'' \<and>
           attributes el =
             builtInAttributes e ps ref derived @ ownProps (readProp ps ''dataAttributes'')"
  using assms
  by (auto simp: Text_def invariant_def Let_def builtInAttributes_def
      split: if_splits sum.splits)

lemma Text_attribute_not_overridden:
  assumes "Text e ps ref = Inr el"
    and "lookupOwn (ownProps (readProp ps ''dataAttributes'')) k = None"
  shows "\<exists>derived.
           useTextSize e (readProp ps ''size'') (readProp ps ''variant'') = Inr derived \<and>
           attribute el k = readProp (builtInAttributes e ps ref derived) k"
proof -
  from Text_success [OF assms(1)] obtain derived where
    d: "useTextSize e (readProp ps ''size'') (readProp ps ''variant'') = Inr derived"
    and a: "attributes el =
             builtInAttributes e ps ref derived @ ownProps (readProp ps ''dataAttributes'')"
    by blast
  have "attribute el k = readProp (builtInAttributes e ps ref derived) k"
    by (simp add: attribute_def a readProp_append assms(2))
  with d show ?thesis by blast
qed


section \<open>Default props resolved\<close>




section \<open>The concrete render\<close>

lemma Text_exampleProps:
  "Text exampleEnv exampleProps Null =
     Inr \<lparr>elementType = Str ''p'',
          attributes =
            [(''ref'', Null), (''id'', Undefined), (''className'', Str ''css-20 mine''),
             (''style'', Undefined), (''role'', Str ''heading''),
             (''aria-label'', Str ''greeting''), (''aria-labelledby'', Undefined),
             (''aria-describedby'', Undefined), (''aria-controls'', Undefined),
             (''aria-expanded'', Undefined), (''aria-haspopup'', Undefined),
             (''aria-hidden'', Undefined), (''aria-live'', Undefined),
             (''role'', Str ''note''), (''data-testid'', Str ''hello'')],
          children = Str ''Hello''\<rparr>"
  by code_simp

lemma exampleProps_size_variant:
  "readProp exampleProps ''size'' = Str ''default''"
  "readProp exampleProps ''variant'' = Str ''default''"
  by (simp_all add: exampleProps_def readProp_def lookupOwn_def)

lemma useTextSize_example_default:
  "useTextSize exampleEnv (Str ''default'') (Str ''default'') = Inr (Obj [(''fontSize'', Num 14)])"
  by code_simp

section \<open>The style resolver on plain sizes\<close>

text \<open>
  Claim C1. For a variant of the enumeration \<^verbatim>\<open>TextVariants\<close> and a plain string size
  of the enumeration \<^verbatim>\<open>TextSizes\<close>, \<open>useTextSize\<close> returns the entry the theme table
  holds at that variant and that size, as it is.
\<close>

theorem useTextSize_plain_size:
  assumes "Str variant \<in> set (values_of TextVariants)"
    and "Str sz \<in> set (values_of TextSizes)"
    and "getProp (useTheme e) ''textSizesByVariant'' = Inr (Obj table)"
    and "lookupOwn table variant = Some (Obj row)"
    and "lookupOwn row sz = Some entry"
  shows "useTextSize e (Str sz) (Str variant) = Inr entry"
  using assms(3-5) by (simp add: useTextSize_def readProp_def)

theorem useTextSize_plain_size_witness:
  "Str ''paragraph'' \<in> set (values_of TextVariants) \<and>
   Str ''small'' \<in> set (values_of TextSizes) \<and>
   useTextSize exampleEnv (Str ''small'') (Str ''paragraph'')
     = Inr (Obj [(''fontSize'', Num 12), (''lineHeight'', Num 2)])"
proof -
  have v: "Str ''paragraph'' \<in> set (values_of TextVariants)"
    by (simp add: values_of_def TextVariants_def)
  have s: "Str ''small'' \<in> set (values_of TextSizes)"
    by (simp add: values_of_def TextSizes_def)
  have r: "lookupOwn exampleTable ''paragraph'' =
             Some (Obj [(''xsmall'', Obj [(''fontSize'', Num 11), (''lineHeight'', Num 2)]),
                        (''small'', Obj [(''fontSize'', Num 12), (''lineHeight'', Num 2)]),
                        (''default'', Obj [(''fontSize'', Num 14), (''lineHeight'', Num 2)]),
                        (''large'', Obj [(''fontSize'', Num 16), (''lineHeight'', Num 2)])])"
    by (simp add: exampleTable_def lookupOwn_def)
  show ?thesis
    using v s
      useTextSize_plain_size [OF v s exampleEnv_table r,
        of "Obj [(''fontSize'', Num 12), (''lineHeight'', Num 2)]"]
    by (simp add: lookupOwn_def)
qed

section \<open>Caller-supplied style props\<close>

text \<open>
  Claim C2. In every render that returns an element, the object given to the styling
  hook is the style object resolved from size and variant followed by the caller's
  style props (the props the render function does not destructure by name). Every key
  the caller supplies has the caller's value in that object, also when the resolved
  style object defines the same key; a key the caller does not supply keeps the
  resolved value.
\<close>

theorem Text_caller_style_props_win:
  assumes "Text e ps ref = Inr el"
  shows "\<exists>derived.
           useTextSize e (readProp ps ''size'') (readProp ps ''variant'') = Inr derived \<and>
           attributes el ! 2 =
             (''className'',
              cx e (useStyledSystem e (Obj (ownProps derived @ restProps namedProps ps)))
                (readProp ps ''className'')) \<and>
           (\<forall>k v. k \<notin> set namedProps \<and> lookupOwn ps k = Some v \<longrightarrow>
                  lookupOwn (ownProps derived @ restProps namedProps ps) k = Some v) \<and>
           (\<forall>k. k \<notin> set namedProps \<and> lookupOwn ps k = None \<longrightarrow>
                  lookupOwn (ownProps derived @ restProps namedProps ps) k
                    = lookupOwn (ownProps derived) k)"
proof -
  from Text_success [OF assms] obtain derived where
    d: "useTextSize e (readProp ps ''size'') (readProp ps ''variant'') = Inr derived"
    and a: "attributes el ! 2 =
             (''className'',
              cx e (useStyledSystem e (Obj (ownProps derived @ restProps namedProps ps)))
                (readProp ps ''className''))"
    by (auto simp: builtInAttributes_def)
  have "lookupOwn (ownProps derived @ restProps namedProps ps) k = Some v"
    if "k \<notin> set namedProps" "lookupOwn ps k = Some v" for k v
    using that by (simp add: lookupOwn_append lookupOwn_restProps)
  moreover have "lookupOwn (ownProps derived @ restProps namedProps ps) k
                   = lookupOwn (ownProps derived) k"
    if "k \<notin> set namedProps" "lookupOwn ps k = None" for k
    using that by (simp add: lookupOwn_append lookupOwn_restProps)
  ultimately show ?thesis using d a by blast
qed

text \<open>
  The example of the specification: the theme maps \<^verbatim>\<open>default\<close>/\<^verbatim>\<open>default\<close> to
  \<^verbatim>\<open>{fontSize: 14}\<close>, the caller passes \<^verbatim>\<open>fontSize={20}\<close>, and the object
  given to the styling hook has \<^verbatim>\<open>fontSize: 20\<close>.
\<close>

theorem Text_caller_style_props_win_witness:
  "lookupOwn (ownProps (Obj [(''fontSize'', Num 14)])) ''fontSize'' = Some (Num 14) \<and>
   lookupOwn exampleProps ''fontSize'' = Some (Num 20) \<and>
   lookupOwn (ownProps (Obj [(''fontSize'', Num 14)]) @ restProps namedProps exampleProps)
     ''fontSize'' = Some (Num 20)"
proof -
  from Text_caller_style_props_win [OF Text_exampleProps] obtain derived where
    d: "useTextSize exampleEnv (readProp exampleProps ''size'') (readProp exampleProps ''variant'')
          = Inr derived"
    and w: "\<forall>k v. k \<notin> set namedProps \<and> lookupOwn exampleProps k = Some v \<longrightarrow>
                  lookupOwn (ownProps derived @ restProps namedProps exampleProps) k = Some v"
    by blast
  from d have derived: "derived = Obj [(''fontSize'', Num 14)]"
    by (simp add: exampleProps_size_variant useTextSize_example_default)
  have k: "''fontSize'' \<notin> set namedProps"
    by (simp add: namedProps_def)
  have l: "lookupOwn exampleProps ''fontSize'' = Some (Num 20)"
    by (simp add: exampleProps_def lookupOwn_def)
  from w k l have "lookupOwn (ownProps derived @ restProps namedProps exampleProps) ''fontSize''
                     = Some (Num 20)"
    by simp
  with l show ?thesis
    by (simp add: derived lookupOwn_single)
qed

section \<open>Failures of the render function\<close>




section \<open>Sizes and variants outside the enumerations\<close>

text \<open>
  Claim C4 as stated fails for the variant: with the out-of-enumeration variant
  \<^verbatim>\<open>heading\<close> and the size \<^verbatim>\<open>default\<close> the lookup does not yield \<^verbatim>\<open>undefined\<close>, it
  throws a \<^verbatim>\<open>TypeError\<close>.
\<close>

theorem useTextSize_unknown_variant_throws:
  "Str ''heading'' \<notin> set (values_of TextVariants) \<and>
   useTextSize exampleEnv (Str ''default'') (Str ''heading'') = Inl TypeError"
  by code_simp

text \<open>
  Claim C4, amended. A string size that names no property of the variant's row of the
  theme table (no own entry, and not a name inherited from \<^verbatim>\<open>Object.prototype\<close>)
  makes the style lookup yield \<^verbatim>\<open>undefined\<close> silently, rather than raise a failure. A
  string variant that names no property of the theme table does not: the row read is
  \<^verbatim>\<open>undefined\<close>, the lookup of a plain string size in it throws a \<^verbatim>\<open>TypeError\<close>, and
  the render fails with it.
\<close>

theorem useTextSize_out_of_enumeration:
  assumes "getProp (useTheme e) ''textSizesByVariant'' = Inr (Obj table)"
  shows "(lookupOwn table variant = Some (Obj row) \<and> lookupOwn row sz = None \<and>
          sz \<notin> set objectPrototypeNames \<longrightarrow>
            useTextSize e (Str sz) (Str variant) = Inr Undefined) \<and>
         (lookupOwn table variant = None \<and> variant \<notin> set objectPrototypeNames \<longrightarrow>
            useTextSize e (Str sz) (Str variant) = Inl TypeError \<and>
            (\<forall>ps ref. readProp ps ''as'' \<noteq> Undefined \<and> readProp ps ''size'' = Str sz \<and>
                      readProp ps ''variant'' = Str variant \<longrightarrow>
                      Text e ps ref = Inl TypeError))"
proof -
  have u: "useTextSize e (Str sz) (Str variant) = Inr Undefined"
    if "lookupOwn table variant = Some (Obj row)" "lookupOwn row sz = None"
    using assms that by (simp add: useTextSize_def readProp_def)
  have t: "useTextSize e (Str sz) (Str variant) = Inl TypeError"
    if "lookupOwn table variant = None"
    using assms that by (simp add: useTextSize_def readProp_def)
  have r: "Text e ps ref = Inl TypeError"
    if "lookupOwn table variant = None" "readProp ps ''as'' \<noteq> Undefined"
      "readProp ps ''size'' = Str sz" "readProp ps ''variant'' = Str variant" for ps ref
    using that by (simp add: Text_def invariant_def Let_def t)
  show ?thesis
    by (intro conjI impI allI; (elim conjE)?) (simp_all add: u t r)
qed

theorem useTextSize_out_of_enumeration_witness:
  "Str ''huge'' \<notin> set (values_of TextSizes) \<and>
   ''huge'' \<notin> set objectPrototypeNames \<and>
   useTextSize exampleEnv (Str ''huge'') (Str ''default'') = Inr Undefined \<and>
   Str ''title'' \<notin> set (values_of TextVariants) \<and>
   ''title'' \<notin> set objectPrototypeNames \<and>
   useTextSize exampleEnv (Str ''small'') (Str ''title'') = Inl TypeError"
proof -
  have r: "lookupOwn exampleTable ''default'' =
             Some (Obj [(''xsmall'', Obj [(''fontSize'', Num 11)]),
                        (''small'', Obj [(''fontSize'', Num 12)]),
                        (''default'', Obj [(''fontSize'', Num 14)]),
                        (''large'', Obj [(''fontSize'', Num 16)])]) \<and>
           lookupOwn [(''xsmall'', Obj [(''fontSize'', Num 11)]),
                      (''small'', Obj [(''fontSize'', Num 12)]),
                      (''default'', Obj [(''fontSize'', Num 14)]),
                      (''large'', Obj [(''fontSize'', Num 16)])] ''huge'' = None"
    by (simp add: exampleTable_def lookupOwn_def)
  have n: "lookupOwn exampleTable ''title'' = None"
    by (simp add: exampleTable_def lookupOwn_def)
  have o: "Str ''huge'' \<notin> set (values_of TextSizes) \<and>
           Str ''title'' \<notin> set (values_of TextVariants)"
    by (simp add: values_of_def TextSizes_def TextVariants_def)
  have p: "''huge'' \<notin> set objectPrototypeNames" "''title'' \<notin> set objectPrototypeNames"
    by (simp_all add: objectPrototypeNames_def)
  from useTextSize_out_of_enumeration [OF exampleEnv_table, where variant = "''default''" and sz = "''huge''"] r p(1)
  have "useTextSize exampleEnv (Str ''huge'') (Str ''default'') = Inr Undefined"
    by blast
  moreover
  from useTextSize_out_of_enumeration [OF exampleEnv_table, where variant = "''title''" and sz = "''small''"] n p(2)
  have "useTextSize exampleEnv (Str ''small'') (Str ''title'') = Inl TypeError"
    by blast
  ultimately show ?thesis using o p by simp
qed

section \<open>Data attributes\<close>

text \<open>
  Claim C5. In every render that returns an element, the properties of
  \<^verbatim>\<open>dataAttributes\<close> are spread onto the host element after the thirteen built-in
  attributes, so every entry of \<^verbatim>\<open>dataAttributes\<close> is the value of the attribute of its
  name on the rendered element, also when a built-in attribute (\<^verbatim>\<open>role\<close>, \<^verbatim>\<open>id\<close>,
  \<^verbatim>\<open>style\<close>, \<^verbatim>\<open>className\<close>, an \<^verbatim>\<open>aria-*\<close> attribute) has that name.
\<close>

theorem Text_dataAttributes_override:
  assumes "Text e ps ref = Inr el"
  shows "\<exists>builtIn.
           attributes el = builtIn @ ownProps (readProp ps ''dataAttributes'') \<and>
           map fst builtIn =
             [''ref'', ''id'', ''className'', ''style'', ''role'', ''aria-label'',
              ''aria-labelledby'', ''aria-describedby'', ''aria-controls'',
              ''aria-expanded'', ''aria-haspopup'', ''aria-hidden'', ''aria-live''] \<and>
           (\<forall>k v. lookupOwn (ownProps (readProp ps ''dataAttributes'')) k = Some v \<longrightarrow>
                  attribute el k = v)"
proof -
  from Text_success [OF assms] obtain builtIn where
    a: "attributes el = builtIn @ ownProps (readProp ps ''dataAttributes'')"
    and b: "map fst builtIn =
             [''ref'', ''id'', ''className'', ''style'', ''role'', ''aria-label'',
              ''aria-labelledby'', ''aria-describedby'', ''aria-controls'',
              ''aria-expanded'', ''aria-haspopup'', ''aria-hidden'', ''aria-live'']"
    by (auto simp: builtInAttributes_def)
  have "attribute el k = v"
    if "lookupOwn (ownProps (readProp ps ''dataAttributes'')) k = Some v" for k v
    using that by (simp add: attribute_def a readProp_append)
  then have "\<forall>k v. lookupOwn (ownProps (readProp ps ''dataAttributes'')) k = Some v \<longrightarrow>
                 attribute el k = v"
    by simp
  with a b show ?thesis
    by (intro exI [of _ builtIn] conjI)
qed

text \<open>
  The caller passes \<^verbatim>\<open>role="heading"\<close> and \<^verbatim>\<open>dataAttributes={{role: 'note', ...}}\<close>:
  the rendered role is \<^verbatim>\<open>note\<close>.
\<close>

theorem Text_dataAttributes_override_witness:
  "readProp exampleProps ''role'' = Str ''heading'' \<and>
   lookupOwn (ownProps (readProp exampleProps ''dataAttributes'')) ''role'' = Some (Str ''note'') \<and>
   attribute (projr (Text exampleEnv exampleProps Null)) ''role'' = Str ''note''"
proof -
  have r: "readProp exampleProps ''role'' = Str ''heading''"
    by (simp add: exampleProps_def readProp_def lookupOwn_def)
  have l: "lookupOwn (ownProps (readProp exampleProps ''dataAttributes'')) ''role''
             = Some (Str ''note'')"
    by (simp add: exampleProps_def readProp_def lookupOwn_def)
  from Text_dataAttributes_override [OF Text_exampleProps] l
  have "attribute (projr (Text exampleEnv exampleProps Null)) ''role'' = Str ''note''"
    unfolding Text_exampleProps sum.sel by blast
  with r l show ?thesis by simp
qed

section \<open>Responsive sizes\<close>

lemma styleAtBreakpoint_set:
  "styleAtBreakpoint (Obj (setAtBreakpoint bp acc (q, v))) bp' p =
     (if p = q \<and> bp' = bp then Some v else styleAtBreakpoint (Obj acc) bp' p)"
  by (simp add: styleAtBreakpoint_def setAtBreakpoint_def readProp_snoc lookupOwn_snoc)

lemma styleAtBreakpoint_entry:
  "styleAtBreakpoint (Obj (foldl (setAtBreakpoint bp) acc entry)) bp' p =
     (if bp' = bp
      then (case lookupOwn entry p of
              None \<Rightarrow> styleAtBreakpoint (Obj acc) bp' p
            | Some v \<Rightarrow> Some v)
      else styleAtBreakpoint (Obj acc) bp' p)"
proof (induction entry rule: rev_induct)
  case Nil
  then show ?case by (simp add: lookupOwn_Nil)
next
  case (snoc x xs)
  obtain q v where x: "x = (q, v)" by (cases x)
  from snoc.IH show ?case
    by (cases "bp' = bp") (simp_all add: x styleAtBreakpoint_set lookupOwn_snoc)
qed

lemma styleAtBreakpoint_expand:
  "styleAtBreakpoint (Obj (expandBreakpoint scale acc (bp, s))) bp' p =
     (if bp' = bp
      then (case lookupOwn (ownProps (readProp (ownProps scale) (toPropertyKey s))) p of
              None \<Rightarrow> styleAtBreakpoint (Obj acc) bp' p
            | Some v \<Rightarrow> Some v)
      else styleAtBreakpoint (Obj acc) bp' p)"
  by (simp add: expandBreakpoint_def styleAtBreakpoint_entry)

lemma styleAtBreakpoint_fold:
  assumes "distinct (map fst m)"
    and "\<forall>q. \<forall>b \<in> fst ` set m. styleAtBreakpoint (Obj acc) b q = None"
  shows "styleAtBreakpoint (Obj (foldl (expandBreakpoint scale) acc m)) bp p =
     (case lookupOwn m bp of
        None \<Rightarrow> styleAtBreakpoint (Obj acc) bp p
      | Some s \<Rightarrow> lookupOwn (ownProps (readProp (ownProps scale) (toPropertyKey s))) p)"
  using assms
proof (induction m arbitrary: acc)
  case Nil
  then show ?case by (simp add: lookupOwn_Nil)
next
  case (Cons x m)
  obtain b s where x: "x = (b, s)" by (cases x)
  let ?acc = "expandBreakpoint scale acc (b, s)"
  from Cons.prems have dist: "distinct (map fst m)" and nb: "b \<notin> fst ` set m"
    by (simp_all add: x)
  have clean: "\<forall>q. \<forall>c \<in> fst ` set m. styleAtBreakpoint (Obj ?acc) c q = None"
    using Cons.prems(2) nb by (auto simp: styleAtBreakpoint_expand x)
  have ih: "styleAtBreakpoint (Obj (foldl (expandBreakpoint scale) ?acc m)) bp p =
     (case lookupOwn m bp of
        None \<Rightarrow> styleAtBreakpoint (Obj ?acc) bp p
      | Some s \<Rightarrow> lookupOwn (ownProps (readProp (ownProps scale) (toPropertyKey s))) p)"
    by (rule Cons.IH [OF dist clean])
  have accb: "styleAtBreakpoint (Obj acc) b p = None"
    using Cons.prems(2) by (simp add: x)
  show ?case
  proof (cases "lookupOwn m bp")
    case None
    then show ?thesis
      using ih accb
      by (simp add: x lookupOwn_Cons styleAtBreakpoint_expand split: option.split)
  next
    case (Some s')
    then have "bp \<noteq> b" using nb by (auto simp: lookupOwn_None_iff [symmetric])
    with Some show ?thesis
      using ih by (simp add: x lookupOwn_Cons)
  qed
qed

lemma styleAtBreakpoint_responsiveStyleProps:
  assumes "distinct (map fst m)"
  shows "styleAtBreakpoint (responsiveStyleProps (Obj m) scale) bp p =
     (case lookupOwn m bp of
        None \<Rightarrow> None
      | Some s \<Rightarrow> lookupOwn (ownProps (readProp (ownProps scale) (toPropertyKey s))) p)"
proof -
  have "\<forall>q. \<forall>b \<in> fst ` set m. styleAtBreakpoint (Obj []) b q = None"
    by (simp add: styleAtBreakpoint_def readProp_def lookupOwn_Nil)
  from styleAtBreakpoint_fold [OF assms this] show ?thesis
    by (simp add: responsiveStyleProps_def styleAtBreakpoint_def readProp_def lookupOwn_Nil
        split: option.split)
qed

text \<open>
  Claim C6. For a variant of the enumeration and a responsive size mapping (an object
  with one Size per breakpoint name, each breakpoint written once), \<open>useTextSize\<close>
  returns what the responsive
  expansion routine returns for the mapping and the variant's row of the theme table.
  With the routine as the specification describes it, the style a breakpoint has in
  the result is the theme entry of that variant at the size the mapping gives the
  breakpoint: every style property has, at that breakpoint, the value the entry has.
\<close>

theorem useTextSize_responsive_size:
  assumes "Str variant \<in> set (values_of TextVariants)"
    and "getProp (useTheme e) ''textSizesByVariant'' = Inr (Obj table)"
    and "lookupOwn table variant = Some (Obj row)"
    and "distinct (map fst m)"
  shows "useTextSize e (Obj m) (Str variant)
           = Inr (getStylePropsForResponsiveProp e (Obj m) (Obj row)) \<and>
         (getStylePropsForResponsiveProp e = responsiveStyleProps \<longrightarrow>
            (\<forall>bp sz p. lookupOwn m bp = Some (Str sz) \<longrightarrow>
               (\<exists>styles. useTextSize e (Obj m) (Str variant) = Inr styles \<and>
                  styleAtBreakpoint styles bp p = lookupOwn (ownProps (readProp row sz)) p)))"
proof -
  have u: "useTextSize e (Obj m) (Str variant)
             = Inr (getStylePropsForResponsiveProp e (Obj m) (Obj row))"
    using assms(2,3) by (simp add: useTextSize_def readProp_def)
  have "styleAtBreakpoint (responsiveStyleProps (Obj m) (Obj row)) bp p
          = lookupOwn (ownProps (readProp row sz)) p"
    if "lookupOwn m bp = Some (Str sz)" for bp sz p
    using that by (simp add: styleAtBreakpoint_responsiveStyleProps [OF assms(4)])
  with u show ?thesis by simp
qed

theorem useTextSize_responsive_size_witness:
  "Str ''paragraph'' \<in> set (values_of TextVariants) \<and>
   distinct (map fst exampleSizes) \<and>
   lookupOwn exampleSizes ''largeViewport'' = Some (Str ''large'') \<and>
   styleAtBreakpoint (projr (useTextSize exampleEnv (Obj exampleSizes) (Str ''paragraph'')))
     ''largeViewport'' ''fontSize'' = Some (Num 16)"
proof -
  have v: "Str ''paragraph'' \<in> set (values_of TextVariants)"
    by (simp add: values_of_def TextVariants_def)
  have r: "lookupOwn exampleTable ''paragraph'' =
             Some (Obj [(''xsmall'', Obj [(''fontSize'', Num 11), (''lineHeight'', Num 2)]),
                        (''small'', Obj [(''fontSize'', Num 12), (''lineHeight'', Num 2)]),
                        (''default'', Obj [(''fontSize'', Num 14), (''lineHeight'', Num 2)]),
                        (''large'', Obj [(''fontSize'', Num 16), (''lineHeight'', Num 2)])])"
    by (simp add: exampleTable_def lookupOwn_def)
  have d: "distinct (map fst exampleSizes)"
    by (simp add: exampleSizes_def)
  have l: "lookupOwn exampleSizes ''largeViewport'' = Some (Str ''large'')"
    by (simp add: exampleSizes_def lookupOwn_def)
  have g: "getStylePropsForResponsiveProp exampleEnv = responsiveStyleProps"
    by (simp add: exampleEnv_def)
  from useTextSize_responsive_size [OF v exampleEnv_table r d] g l
  obtain styles where
    s: "useTextSize exampleEnv (Obj exampleSizes) (Str ''paragraph'') = Inr styles"
    and a: "styleAtBreakpoint styles ''largeViewport'' ''fontSize'' =
              lookupOwn (ownProps (readProp
                [(''xsmall'', Obj [(''fontSize'', Num 11), (''lineHeight'', Num 2)]),
                 (''small'', Obj [(''fontSize'', Num 12), (''lineHeight'', Num 2)]),
                 (''default'', Obj [(''fontSize'', Num 14), (''lineHeight'', Num 2)]),
                 (''large'', Obj [(''fontSize'', Num 16), (''lineHeight'', Num 2)])]
                ''large'')) ''fontSize''"
    by blast
  from a have "styleAtBreakpoint styles ''largeViewport'' ''fontSize'' = Some (Num 16)"
    by (simp add: readProp_def lookupOwn_def)
  with v d l s show ?thesis by simp
qed

section \<open>The class attribute\<close>

text \<open>
  Claim C7 as stated fails: the class attribute of a render is not always the computed
  class name combined with the caller's \<^verbatim>\<open>className\<close>. The caller passes
  \<^verbatim>\<open>className="mine"\<close> and \<^verbatim>\<open>dataAttributes={{className: 'other'}}\<close>; the spread of
  \<^verbatim>\<open>dataAttributes\<close> comes after the \<^verbatim>\<open>className\<close> attribute and replaces it, and the
  class attribute is \<^verbatim>\<open>other\<close>.
\<close>

theorem Text_className_replaced:
  "readProp (exampleProps @ [(''dataAttributes'', Obj [(''className'', Str ''other'')])])
     ''className'' = Str ''mine'' \<and>
   \<not> isl (Text exampleEnv
            (exampleProps @ [(''dataAttributes'', Obj [(''className'', Str ''other'')])]) Null) \<and>
   attribute
     (projr (Text exampleEnv
               (exampleProps @ [(''dataAttributes'', Obj [(''className'', Str ''other'')])]) Null))
     ''className'' = Str ''other''"
  by code_simp

text \<open>
  Claim C7, amended. In every render that returns an element and whose
  \<^verbatim>\<open>dataAttributes\<close> has no \<^verbatim>\<open>className\<close> entry, the class attribute of the host
  element is the class-name combiner applied to the class name the styling hook
  resolved and to the caller's \<^verbatim>\<open>className\<close>. With the combiner as the specification
  describes it, a computed class name and a caller's class name, both non-empty
  strings, give the computed class name, a space and the caller's class name: the
  caller's class name is appended and the computed one is kept.
\<close>

theorem Text_className_combined:
  assumes "Text e ps ref = Inr el"
    and "lookupOwn (ownProps (readProp ps ''dataAttributes'')) ''className'' = None"
  shows "\<exists>derived.
           useTextSize e (readProp ps ''size'') (readProp ps ''variant'') = Inr derived \<and>
           attribute el ''className'' =
             cx e (useStyledSystem e (Obj (ownProps derived @ restProps namedProps ps)))
               (readProp ps ''className'') \<and>
           (\<forall>computed c.
              cx e = cxModel \<and>
              useStyledSystem e (Obj (ownProps derived @ restProps namedProps ps)) = Str computed \<and>
              computed \<noteq> [] \<and> readProp ps ''className'' = Str c \<and> c \<noteq> [] \<longrightarrow>
              attribute el ''className'' = Str (computed @ '' '' @ c))"
proof -
  from Text_attribute_not_overridden [OF assms] obtain derived where
    d: "useTextSize e (readProp ps ''size'') (readProp ps ''variant'') = Inr derived"
    and a: "attribute el ''className'' =
             cx e (useStyledSystem e (Obj (ownProps derived @ restProps namedProps ps)))
               (readProp ps ''className'')"
    by (auto simp: builtInAttributes_def readProp_def lookupOwn_def)
  have "attribute el ''className'' = Str (computed @ '' '' @ c)"
    if "cx e = cxModel"
      "useStyledSystem e (Obj (ownProps derived @ restProps namedProps ps)) = Str computed"
      "computed \<noteq> []" "readProp ps ''className'' = Str c" "c \<noteq> []" for computed c
    using that by (simp add: a cxModel_def)
  with d a show ?thesis
    by (intro exI [of _ derived] conjI) auto
qed

theorem Text_className_combined_witness:
  "lookupOwn (ownProps (readProp exampleProps ''dataAttributes'')) ''className'' = None \<and>
   readProp exampleProps ''className'' = Str ''mine'' \<and>
   attribute (projr (Text exampleEnv exampleProps Null)) ''className'' = Str (''css-20'' @ '' '' @ ''mine'')"
proof -
  have n: "lookupOwn (ownProps (readProp exampleProps ''dataAttributes'')) ''className'' = None"
    by (simp add: exampleProps_def readProp_def lookupOwn_def)
  have c: "readProp exampleProps ''className'' = Str ''mine''"
    by (simp add: exampleProps_def readProp_def lookupOwn_def)
  have "attribute (projr (Text exampleEnv exampleProps Null)) ''className'' = Str ''css-20 mine''"
    using Text_className_combined [OF Text_exampleProps n]
    by (simp add: Text_exampleProps attribute_def readProp_def lookupOwn_def)
  with n c show ?thesis by simp
qed

section \<open>Defaults\<close>



section \<open>Accessibility attributes\<close>

text \<open>
  Claim C9 as stated fails: a supplied \<^verbatim>\<open>aria-*\<close> prop does not always appear
  verbatim. The caller passes \<^verbatim>\<open>aria-label="greeting"\<close> and
  \<^verbatim>\<open>dataAttributes={{'aria-label': 'other'}}\<close>; the spread of \<^verbatim>\<open>dataAttributes\<close>
  replaces the attribute, and the rendered \<^verbatim>\<open>aria-label\<close> is \<^verbatim>\<open>other\<close>.
\<close>

theorem Text_aria_label_replaced:
  "readProp (exampleProps @ [(''dataAttributes'', Obj [(''aria-label'', Str ''other'')])])
     ''aria-label'' = Str ''greeting'' \<and>
   \<not> isl (Text exampleEnv
            (exampleProps @ [(''dataAttributes'', Obj [(''aria-label'', Str ''other'')])]) Null) \<and>
   attribute
     (projr (Text exampleEnv
               (exampleProps @ [(''dataAttributes'', Obj [(''aria-label'', Str ''other'')])]) Null))
     ''aria-label'' = Str ''other''"
  by code_simp

text \<open>
  Claim C9, amended. In every render that returns an element, for each of the eight
  \<^verbatim>\<open>aria-*\<close> props for which \<^verbatim>\<open>dataAttributes\<close> has no entry of that name: when
  the prop is supplied, the attribute of that name on the host element has the prop's
  value, unmodified; when the prop is omitted, the attribute has the value
  \<^verbatim>\<open>undefined\<close>, which is how an absent attribute is written.
\<close>

theorem Text_aria_forwarded:
  assumes "Text e ps ref = Inr el"
    and "a \<in> {''aria-label'', ''aria-labelledby'', ''aria-describedby'', ''aria-controls'',
              ''aria-expanded'', ''aria-haspopup'', ''aria-hidden'', ''aria-live''}"
    and "lookupOwn (ownProps (readProp ps ''dataAttributes'')) a = None"
  shows "(\<forall>v. lookupOwn ps a = Some v \<longrightarrow> attribute el a = v) \<and>
         (lookupOwn ps a = None \<longrightarrow> attribute el a = Undefined)"
proof -
  from Text_attribute_not_overridden [OF assms(1,3)] obtain derived where
    "attribute el a = readProp (builtInAttributes e ps ref derived) a"
    by blast
  with assms(2) have "attribute el a = readProp ps a"
    by (auto simp: builtInAttributes_def) (simp_all add: readProp_def lookupOwn_def)
  then show ?thesis by (simp add: readProp_def)
qed

theorem Text_aria_forwarded_witness:
  "lookupOwn exampleProps ''aria-label'' = Some (Str ''greeting'') \<and>
   attribute (projr (Text exampleEnv exampleProps Null)) ''aria-label'' = Str ''greeting'' \<and>
   lookupOwn exampleProps ''aria-live'' = None \<and>
   attribute (projr (Text exampleEnv exampleProps Null)) ''aria-live'' = Undefined"
proof -
  have n: "lookupOwn (ownProps (readProp exampleProps ''dataAttributes'')) ''aria-label'' = None"
    "lookupOwn (ownProps (readProp exampleProps ''dataAttributes'')) ''aria-live'' = None"
    by (simp_all add: exampleProps_def readProp_def lookupOwn_def)
  have l: "lookupOwn exampleProps ''aria-label'' = Some (Str ''greeting'')"
    "lookupOwn exampleProps ''aria-live'' = None"
    by (simp_all add: exampleProps_def lookupOwn_def)
  from Text_aria_forwarded [OF Text_exampleProps _ n(1)] l(1)
  have 1: "attribute (projr (Text exampleEnv exampleProps Null)) ''aria-label'' = Str ''greeting''"
    by (simp add: Text_exampleProps)
  from Text_aria_forwarded [OF Text_exampleProps _ n(2)] l(2)
  have 2: "attribute (projr (Text exampleEnv exampleProps Null)) ''aria-live'' = Undefined"
    by (simp add: Text_exampleProps)
  from 1 2 l show ?thesis by simp
qed

section \<open>Children\<close>

text \<open>
  Claim C10. In every render that returns an element, the children of the host element
  are the value of the \<^verbatim>\<open>children\<close> prop, unchanged: nothing is inserted, wrapped,
  reordered or dropped.
\<close>

theorem Text_children_forwarded:
  assumes "Text e ps ref = Inr el"
  shows "children el = readProp ps ''children''"
  using Text_success [OF assms] by auto

theorem Text_children_forwarded_witness:
  "readProp exampleProps ''children'' = Str ''Hello'' \<and>
   children (projr (Text exampleEnv exampleProps Null)) = Str ''Hello''"
proof -
  have c: "readProp exampleProps ''children'' = Str ''Hello''"
    by (simp add: exampleProps_def readProp_def lookupOwn_def)
  from Text_children_forwarded [OF Text_exampleProps] c show ?thesis
    by (simp add: Text_exampleProps)
qed

end
